theory Spec2Isabelle
  imports Main "HOL-Library.Sublist"
begin

section \<open>Platform and architecture names\<close>

text \<open>
  \<^verbatim>\<open>const archMap = new Map([['x64', 'amd64'], ['x86', '386']]);\<close>
  \<^verbatim>\<open>const platformMap = new Map([['win32', 'windows']]);\<close>
  The two tables are association lists, looked up with \<open>map_of\<close>.
\<close>

definition archMap :: "(string \<times> string) list" where
  "archMap = [(''x64'', ''amd64''), (''x86'', ''386'')]"

definition platformMap :: "(string \<times> string) list" where
  "platformMap = [(''win32'', ''windows'')]"

text \<open>
  \<^verbatim>\<open>m.get(k) || k\<close>: a missing key gives \<open>undefined\<close>, and the operator also
  falls through on the empty string, the only falsy string.
\<close>

definition get_or :: "(string \<times> string) list \<Rightarrow> string \<Rightarrow> string" where
  "get_or m k = (case map_of m k of None \<Rightarrow> k | Some v \<Rightarrow> if v = [] then k else v)"

definition getPlatform :: "string \<Rightarrow> string" where
  "getPlatform p = get_or platformMap p"

definition getArch :: "string \<Rightarrow> string" where
  "getArch a = get_or archMap a"

section \<open>Download URL\<close>

definition getGoUrl :: "string \<Rightarrow> string \<Rightarrow> string \<Rightarrow> string" where
  "getGoUrl version platform arch =
     (let goArch = getArch arch;
          goPlatform = getPlatform platform;
          ext = (if platform = ''win32'' then ''zip'' else ''tar.gz'')
      in ''https://dl.google.com/go/go'' @ version @ ''.'' @ goPlatform @ ''-'' @ goArch
           @ ''.'' @ ext)"

section \<open>Host: file system, processes, network\<close>

text \<open>
  Everything the module reaches outside itself is a field of \<open>host\<close>: the module's
  \<^verbatim>\<open>__dirname\<close>, \<^verbatim>\<open>process.env\<close> and \<^verbatim>\<open>process.cwd()\<close>, the functions
  \<^verbatim>\<open>join\<close> and \<^verbatim>\<open>dirname\<close> of Node's \<^verbatim>\<open>path\<close>, the way the operating system
  resolves a path string to its components, process creation, \<^verbatim>\<open>fetch\<close> and
  \<^verbatim>\<open>tar.extract\<close>. The file system is explicit state: a map from a resolved path to
  what sits there. Calls to \<^verbatim>\<open>debug\<close> only log and are left out.
\<close>

datatype node = Dir | File

type_synonym path = "string list"
type_synonym fs = "path \<rightharpoonup> node"
type_synonym env = "string \<rightharpoonup> string"

datatype proc_outcome = SpawnFailed | Exited int string

record invocation =
  inv_file :: string
  inv_args :: "string list"
  inv_stdio :: "string option"
  inv_cwd :: "string option"
  inv_env :: "env option"

record response =
  ok :: bool
  status :: nat
  body :: string

datatype error =
    Error string
  | FetchError string
  | MkdirError path
  | TarError string
  | ExecaError proc_outcome

record host =
  module_dirname :: string
  process_env :: env
  process_cwd :: string
  path_join :: "string list \<Rightarrow> string"
  path_dirname :: "string \<Rightarrow> string"
  path_resolve :: "string \<Rightarrow> path"
  spawn :: "invocation \<Rightarrow> fs \<Rightarrow> proc_outcome \<times> fs"
  fetch :: "string \<Rightarrow> string + response"
  tar_extract :: "string \<Rightarrow> nat \<Rightarrow> string \<Rightarrow> fs \<Rightarrow> string option \<times> fs"

text \<open>
  \<^verbatim>\<open>mkdirp\<close> of fs-extra: the directory and every missing ancestor are created, a
  directory that exists is left alone, and the call fails, creating nothing, when a
  component of the path exists and is not a directory. \<open>dirs_of\<close> lists a path and its
  ancestors, outermost first.
\<close>

fun dirs_of :: "path \<Rightarrow> path list" where
  "dirs_of [] = []"
| "dirs_of (c # cs) = [c] # map ((#) c) (dirs_of cs)"

definition mkdirp :: "host \<Rightarrow> string \<Rightarrow> fs \<Rightarrow> (error + unit) \<times> fs" where
  "mkdirp h p s =
     (let ds = dirs_of (path_resolve h p)
      in if list_ex (\<lambda>d. s d = Some File) ds then (Inl (MkdirError (path_resolve h p)), s)
         else (Inr (), fold (\<lambda>d m. m(d \<mapsto> Dir)) ds s))"

text \<open>
  \<^verbatim>\<open>execa\<close>: the promise rejects when the process cannot be started or exits with a
  code other than 0; otherwise it resolves, and the standard output it carries has lost
  one final line feed and then one final carriage return (the library's default
  \<^verbatim>\<open>stripEof\<close>).
\<close>

definition strip_eof :: "string \<Rightarrow> string" where
  "strip_eof x =
     (let x1 = (if x \<noteq> [] \<and> last x = CHR 0x0A then butlast x else x)
      in if x1 \<noteq> [] \<and> last x1 = CHR 0x0D then butlast x1 else x1)"

definition execa :: "host \<Rightarrow> invocation \<Rightarrow> fs \<Rightarrow> (error + string) \<times> fs" where
  "execa h call s =
     (case spawn h call s of
        (SpawnFailed, s') \<Rightarrow> (Inl (ExecaError SpawnFailed), s')
      | (Exited code out, s') \<Rightarrow>
          (if code = 0 then Inr (strip_eof out) else Inl (ExecaError (Exited code out)), s'))"

text \<open>\<^verbatim>\<open>await p;\<close> as a statement: the value is dropped, a rejection is kept.\<close>

definition discard :: "(error + 'a) \<times> fs \<Rightarrow> (error + unit) \<times> fs" where
  "discard r = (case r of (Inl e, s) \<Rightarrow> (Inl e, s) | (Inr _, s) \<Rightarrow> (Inr (), s))"

text \<open>A number in a template literal; the status of a response is a natural number.\<close>

function string_of_nat :: "nat \<Rightarrow> string" where
  "string_of_nat n =
     (if n < 10 then [''0123456789'' ! n]
      else string_of_nat (n div 10) @ [''0123456789'' ! (n mod 10)])"
  by pat_completeness auto
termination
  by (relation "measure id") auto

declare string_of_nat.simps [simp del]

section \<open>Module constants\<close>

definition GO_DIR :: "host \<Rightarrow> string" where
  "GO_DIR h = path_join h [module_dirname h, ''go'']"

definition GO_BIN :: "host \<Rightarrow> string" where
  "GO_BIN h = path_join h [GO_DIR h, ''bin/go'']"

section \<open>Exported function name\<close>

definition getExportedFunctionName :: "host \<Rightarrow> string \<Rightarrow> fs \<Rightarrow> (error + string) \<times> fs" where
  "getExportedFunctionName h filePath s =
     (let bin = path_join h [module_dirname h, ''get-exported-function-name''];
          args = [filePath]
      in execa h \<lparr>inv_file = bin, inv_args = args, inv_stdio = None, inv_cwd = None,
                   inv_env = None\<rparr> s)"

section \<open>Workspace tree\<close>

text \<open>
  \<^verbatim>\<open>Promise.all\<close> of the two \<^verbatim>\<open>mkdirp\<close> calls: both run, and the result is the
  first rejection if there is one. The two calls only add directories, so the order in
  which they touch the file system does not change the outcome.
\<close>

definition createGoPathTree ::
  "host \<Rightarrow> string \<Rightarrow> string \<Rightarrow> string \<Rightarrow> fs \<Rightarrow> (error + unit) \<times> fs" where
  "createGoPathTree h goPath platform arch s =
     (let tuple = getPlatform platform @ ''_'' @ getArch arch;
          (r1, s1) = mkdirp h (path_join h [goPath, ''bin'']) s;
          (r2, s2) = mkdirp h (path_join h [goPath, ''pkg'', tuple]) s1
      in (case r1 of Inl e \<Rightarrow> Inl e | Inr _ \<Rightarrow> (case r2 of Inl e \<Rightarrow> Inl e | Inr _ \<Rightarrow> Inr ()),
          s2))"

section \<open>The go handle\<close>

text \<open>
  \<^verbatim>\<open>opts\<close> is an untyped bag handed on to \<^verbatim>\<open>execa\<close>; the keys the module reads or
  overrides are \<^verbatim>\<open>env\<close>, \<^verbatim>\<open>cwd\<close> and \<^verbatim>\<open>stdio\<close>, \<open>None\<close> for a key that is absent.
  The handle is the function \<^verbatim>\<open>go\<close> with its properties \<^verbatim>\<open>cwd\<close> and \<^verbatim>\<open>goPath\<close>
  and the \<^verbatim>\<open>opts\<close> and \<^verbatim>\<open>env\<close> its closure holds.
\<close>

record exec_opts =
  opt_env :: "env option"
  opt_cwd :: "string option"
  opt_stdio :: "string option"

record go_handle =
  go_env :: env
  go_opts :: exec_opts
  go_cwd :: string
  go_goPath :: string

definition no_opts :: exec_opts where
  "no_opts = \<lparr>opt_env = None, opt_cwd = None, opt_stdio = None\<rparr>"

text \<open>\<^verbatim>\<open>...opts.env\<close>: spreading \<^verbatim>\<open>undefined\<close> adds nothing.\<close>

definition spread :: "env option \<Rightarrow> env" where
  "spread e = (case e of None \<Rightarrow> Map.empty | Some m \<Rightarrow> m)"

definition createGo_env :: "host \<Rightarrow> string \<Rightarrow> exec_opts \<Rightarrow> bool \<Rightarrow> env" where
  "createGo_env h goPath opts goMod =
     (let env = (process_env h)
                  (''PATH'' \<mapsto> path_dirname h (GO_BIN h) @ '':'' @
                     (case process_env h ''PATH'' of None \<Rightarrow> ''undefined'' | Some p \<Rightarrow> p),
                   ''GOPATH'' \<mapsto> goPath)
                ++ spread (opt_env opts)
      in if goMod then env(''GO111MODULE'' \<mapsto> ''on'') else env)"

definition go :: "host \<Rightarrow> go_handle \<Rightarrow> string list \<Rightarrow> fs \<Rightarrow> (error + string) \<times> fs" where
  "go h g args s =
     execa h \<lparr>inv_file = ''go'', inv_args = args,
               inv_stdio = (case opt_stdio (go_opts g) of None \<Rightarrow> Some ''inherit''
                            | Some v \<Rightarrow> Some v),
               inv_cwd = opt_cwd (go_opts g),
               inv_env = Some (go_env g)\<rparr> s"

text \<open>The call that \<open>go\<close> hands to \<open>execa\<close>, as an abbreviation for the statements below.\<close>

abbreviation go_call :: "go_handle \<Rightarrow> string list \<Rightarrow> invocation" where
  "go_call g args \<equiv>
     \<lparr>inv_file = ''go'', inv_args = args,
      inv_stdio = (case opt_stdio (go_opts g) of None \<Rightarrow> Some ''inherit'' | Some v \<Rightarrow> Some v),
      inv_cwd = opt_cwd (go_opts g),
      inv_env = Some (go_env g)\<rparr>"

text \<open>\<^verbatim>\<open>if (src)\<close>: an absent \<^verbatim>\<open>src\<close> and the empty string are both falsy.\<close>

definition get :: "host \<Rightarrow> go_handle \<Rightarrow> string option \<Rightarrow> fs \<Rightarrow> (error + unit) \<times> fs" where
  "get h g src s =
     (let args = [''get''];
          args = (case src of None \<Rightarrow> args | Some p \<Rightarrow> if p \<noteq> [] then args @ [p] else args)
      in discard (go h g args s))"

datatype src_arg = One string | Many "string list"

definition build ::
  "host \<Rightarrow> go_handle \<Rightarrow> src_arg \<Rightarrow> string \<Rightarrow> fs \<Rightarrow> (error + unit) \<times> fs" where
  "build h g src dest s =
     (let sources = (case src of Many xs \<Rightarrow> xs | One x \<Rightarrow> [x])
      in discard (go h g ([''build'', ''-o'', dest] @ sources) s))"

text \<open>\<^verbatim>\<open>opts.cwd || process.cwd()\<close>, again with the empty string falsy.\<close>

definition createGo ::
  "host \<Rightarrow> string \<Rightarrow> string \<Rightarrow> string \<Rightarrow> exec_opts \<Rightarrow> bool \<Rightarrow> fs \<Rightarrow> (error + go_handle) \<times> fs"
  where
  "createGo h goPath platform arch opts goMod s =
     (let env = createGo_env h goPath opts goMod;
          g = \<lparr>go_env = env, go_opts = opts,
               go_cwd = (case opt_cwd opts of None \<Rightarrow> process_cwd h
                         | Some c \<Rightarrow> if c = [] then process_cwd h else c),
               go_goPath = goPath\<rparr>
      in case createGoPathTree h goPath platform arch s of
           (Inl e, s') \<Rightarrow> (Inl e, s')
         | (Inr _, s') \<Rightarrow> (Inr g, s'))"

section \<open>Download and installation\<close>

text \<open>
  The promise around the pipe resolves when the extractor finishes and rejects on an
  error of either stream; \<open>tar_extract\<close> of the host is that whole step, given the
  extractor's \<^verbatim>\<open>cwd\<close> and \<^verbatim>\<open>strip\<close> and the response body. The defaults of the
  parameters are passed by the caller.
\<close>

definition downloadGo ::
  "host \<Rightarrow> string \<Rightarrow> string \<Rightarrow> string \<Rightarrow> string \<Rightarrow> fs \<Rightarrow> (error + go_handle) \<times> fs" where
  "downloadGo h dir version platform arch s =
     (let url = getGoUrl version platform arch
      in case fetch h url of
           Inl e \<Rightarrow> (Inl (FetchError e), s)
         | Inr res \<Rightarrow>
             if \<not> ok res
             then (Inl (Error (''Failed to download: '' @ url @ '' ('' @
                                 string_of_nat (status res) @ '')'')), s)
             else (case mkdirp h dir s of
                     (Inl e, s1) \<Rightarrow> (Inl e, s1)
                   | (Inr _, s1) \<Rightarrow>
                       (case tar_extract h dir 1 (body res) s1 of
                          (Some e, s2) \<Rightarrow> (Inl (TarError e), s2)
                        | (None, s2) \<Rightarrow> createGo h dir platform arch no_opts False s2)))"

section \<open>The word of the specification for the detector's output\<close>

text \<open>
  The specification calls the exported name the detector's standard output, trimmed.
  \<open>trimmed\<close> follows that word, as \<^verbatim>\<open>String.prototype.trim\<close> does on ASCII: white
  space is removed from both ends. It is not part of the code; the code's result is
  compared with it below.
\<close>

definition is_space :: "char \<Rightarrow> bool" where
  "is_space c = (c \<in> set [CHR '' '', CHR 0x09, CHR 0x0A, CHR 0x0B, CHR 0x0C, CHR 0x0D])"

definition trimmed :: "string \<Rightarrow> string" where
  "trimmed x = rev (dropWhile is_space (rev (dropWhile is_space x)))"

section \<open>A concrete host\<close>

text \<open>
  A small POSIX-like host on which the theorems below are instantiated: paths are joined
  with a slash, the directory name drops the last component, and a path resolves to its
  non-empty components.
\<close>

fun slash_join :: "string list \<Rightarrow> string" where
  "slash_join [] = ''.''"
| "slash_join [x] = x"
| "slash_join (x # y # ys) = x @ ''/'' @ slash_join (y # ys)"

fun components :: "string \<Rightarrow> string \<Rightarrow> path" where
  "components acc [] = (if acc = [] then [] else [acc])"
| "components acc (c # cs) =
     (if c = CHR ''/'' then (if acc = [] then components [] cs else acc # components [] cs)
      else components (acc @ [c]) cs)"

definition posix_host :: host where
  "posix_host =
     \<lparr>module_dirname = ''/app'',
      process_env = [''PATH'' \<mapsto> ''/usr/bin'', ''HOME'' \<mapsto> ''/root''],
      process_cwd = ''/work'',
      path_join = slash_join,
      path_dirname = (\<lambda>p. rev (tl (dropWhile (\<lambda>c. c \<noteq> CHR ''/'') (rev p)))),
      path_resolve = components [],
      spawn = (\<lambda>call s. (Exited 0 [], s)),
      fetch = (\<lambda>url. Inr \<lparr>ok = True, status = 200, body = ''PK''\<rparr>),
      tar_extract = (\<lambda>cwd strip data s. (None, s))\<rparr>"

section \<open>Platform and architecture resolution\<close>

lemma getArch_simps:
  "getArch ''x64'' = ''amd64''" "getArch ''x86'' = ''386''"
  by (simp_all add: getArch_def get_or_def archMap_def)

lemma getPlatform_win32: "getPlatform ''win32'' = ''windows''"
  by (simp add: getPlatform_def get_or_def platformMap_def)

lemma getArch_other: "a \<noteq> ''x64'' \<Longrightarrow> a \<noteq> ''x86'' \<Longrightarrow> getArch a = a"
  by (simp add: getArch_def get_or_def archMap_def)

lemma getPlatform_other: "p \<noteq> ''win32'' \<Longrightarrow> getPlatform p = p"
  by (simp add: getPlatform_def get_or_def platformMap_def)

text \<open>
  C6. \<open>getPlatform\<close> and \<open>getArch\<close> are total functions from strings to strings with no
  error result. A name in a remap table is sent to its vendor name (\<open>x64\<close> to \<open>amd64\<close>,
  \<open>x86\<close> to \<open>386\<close>, \<open>win32\<close> to \<open>windows\<close>); any other string is returned unchanged.
\<close>

theorem platform_arch_resolution:
  "getArch ''x64'' = ''amd64'' \<and> getArch ''x86'' = ''386'' \<and> getPlatform ''win32'' = ''windows''
   \<and> ((k, v) \<in> set archMap \<longrightarrow> getArch k = v)
   \<and> ((k', v') \<in> set platformMap \<longrightarrow> getPlatform k' = v')
   \<and> (a \<notin> fst ` set archMap \<longrightarrow> getArch a = a)
   \<and> (p \<notin> fst ` set platformMap \<longrightarrow> getPlatform p = p)
   \<and> fst ` set archMap = {''x64'', ''x86''} \<and> fst ` set platformMap = {''win32''}"
  by (auto simp: getArch_def getPlatform_def get_or_def archMap_def platformMap_def)

theorem platform_arch_resolution_witness:
  "getArch ''x64'' = ''amd64'' \<and> getPlatform ''win32'' = ''windows''
   \<and> getArch ''arm64'' = ''arm64'' \<and> getPlatform ''linux'' = ''linux''"
  using platform_arch_resolution
    [of "''x64''" "''amd64''" "''win32''" "''windows''" "''arm64''" "''linux''"]
  by (simp add: archMap_def platformMap_def)

section \<open>The download URL\<close>

text \<open>
  C2. The download URL is the vendor base URL followed by
  \<open>go<version>.<resolved platform>-<resolved arch>.<ext>\<close>, where the extension is \<open>zip\<close>
  for platform \<open>win32\<close> and \<open>tar.gz\<close> for every other platform. For version 1.12 on
  \<open>win32\<close>/\<open>x64\<close> the URL ends in \<open>windows-amd64.zip\<close>, and on \<open>linux\<close>/\<open>x64\<close> in
  \<open>linux-amd64.tar.gz\<close>.
\<close>

theorem download_url_shape:
  "getGoUrl version platform arch =
     ''https://dl.google.com/go/'' @ ''go'' @ version @ ''.'' @ getPlatform platform @ ''-'' @
       getArch arch @ ''.'' @ (if platform = ''win32'' then ''zip'' else ''tar.gz'')
   \<and> getGoUrl ''1.12'' ''win32'' ''x64'' = ''https://dl.google.com/go/go1.12.windows-amd64.zip''
   \<and> suffix ''windows-amd64.zip'' (getGoUrl ''1.12'' ''win32'' ''x64'')
   \<and> getGoUrl ''1.12'' ''linux'' ''x64'' = ''https://dl.google.com/go/go1.12.linux-amd64.tar.gz''
   \<and> suffix ''linux-amd64.tar.gz'' (getGoUrl ''1.12'' ''linux'' ''x64'')"
proof -
  have w: "getGoUrl ''1.12'' ''win32'' ''x64'' =
             ''https://dl.google.com/go/go1.12.'' @ ''windows-amd64.zip''"
    by (simp add: getGoUrl_def getArch_simps getPlatform_win32)
  have l: "getGoUrl ''1.12'' ''linux'' ''x64'' =
             ''https://dl.google.com/go/go1.12.'' @ ''linux-amd64.tar.gz''"
    by (simp add: getGoUrl_def getArch_simps getPlatform_other)
  have "suffix ''windows-amd64.zip'' (getGoUrl ''1.12'' ''win32'' ''x64'')"
    unfolding w by (rule suffix_appendI) simp
  moreover have "suffix ''linux-amd64.tar.gz'' (getGoUrl ''1.12'' ''linux'' ''x64'')"
    unfolding l by (rule suffix_appendI) simp
  moreover have "getGoUrl version platform arch =
     ''https://dl.google.com/go/'' @ ''go'' @ version @ ''.'' @ getPlatform platform @ ''-'' @
       getArch arch @ ''.'' @ (if platform = ''win32'' then ''zip'' else ''tar.gz'')"
    by (simp add: getGoUrl_def)
  ultimately show ?thesis using w l by simp
qed

section \<open>The workspace tree\<close>

lemma fold_mk_apply:
  "fold (\<lambda>d m. m(d \<mapsto> Dir)) ds s q = (if q \<in> set ds then Some Dir else s q)"
  by (induction ds arbitrary: s) auto

lemma dirs_of_iff: "q \<in> set (dirs_of p) \<longleftrightarrow> q \<noteq> [] \<and> prefix q p"
proof (induction p arbitrary: q)
  case Nil
  then show ?case by simp
next
  case (Cons c cs)
  show ?case
  proof (cases q)
    case Nil
    then show ?thesis by auto
  next
    case (Cons a as)
    then show ?thesis using Cons.IH [of as] by (cases as) auto
  qed
qed

lemma mkdirp_blocked:
  "list_ex (\<lambda>d. s d = Some File) (dirs_of (path_resolve h p)) \<Longrightarrow>
     mkdirp h p s = (Inl (MkdirError (path_resolve h p)), s)"
  by (simp add: mkdirp_def)

lemma mkdirp_free:
  "\<not> list_ex (\<lambda>d. s d = Some File) (dirs_of (path_resolve h p)) \<Longrightarrow>
     mkdirp h p s =
       (Inr (), \<lambda>q. if q \<noteq> [] \<and> prefix q (path_resolve h p) then Some Dir else s q)"
  by (simp add: mkdirp_def fold_mk_apply dirs_of_iff fun_eq_iff)

lemma blocked_iff:
  "list_ex (\<lambda>d. s d = Some File) (dirs_of p) \<longleftrightarrow> (\<exists>d. d \<noteq> [] \<and> prefix d p \<and> s d = Some File)"
  by (auto simp: list_ex_iff dirs_of_iff)

lemma createGoPathTree_pair:
  "mkdirp h (path_join h [root, ''bin'']) s = (r1, s1) \<Longrightarrow>
   mkdirp h (path_join h [root, ''pkg'', getPlatform platform @ ''_'' @ getArch arch]) s1 = (r2, s2) \<Longrightarrow>
   createGoPathTree h root platform arch s =
     (case r1 of Inl e \<Rightarrow> Inl e | Inr _ \<Rightarrow> (case r2 of Inl e \<Rightarrow> Inl e | Inr _ \<Rightarrow> Inr ()), s2)"
  by (simp add: createGoPathTree_def)

lemma createGoPathTree_run:
  fixes h root platform arch s
  defines "B \<equiv> path_resolve h (path_join h [root, ''bin''])"
    and "K \<equiv> path_resolve h (path_join h [root, ''pkg'', getPlatform platform @ ''_'' @ getArch arch])"
  shows "createGoPathTree h root platform arch s =
     (if \<exists>d. d \<noteq> [] \<and> prefix d B \<and> s d = Some File
      then (Inl (MkdirError B),
            if \<exists>d. d \<noteq> [] \<and> prefix d K \<and> s d = Some File then s
            else (\<lambda>q. if q \<noteq> [] \<and> prefix q K then Some Dir else s q))
      else if \<exists>d. d \<noteq> [] \<and> prefix d K \<and> s d = Some File
      then (Inl (MkdirError K), \<lambda>q. if q \<noteq> [] \<and> prefix q B then Some Dir else s q)
      else (Inr (), \<lambda>q. if q \<noteq> [] \<and> (prefix q B \<or> prefix q K) then Some Dir else s q))"
proof -
  let ?b = "path_join h [root, ''bin'']"
  let ?k = "path_join h [root, ''pkg'', getPlatform platform @ ''_'' @ getArch arch]"
  let ?blocked = "\<lambda>p t. \<exists>d. d \<noteq> [] \<and> prefix d p \<and> t d = Some File"
  let ?mk = "\<lambda>p t q. if q \<noteq> [] \<and> prefix q p then Some Dir else t q"
  show ?thesis
  proof (cases "?blocked B s")
    case bB: True
    then have m1: "mkdirp h ?b s = (Inl (MkdirError B), s)"
      unfolding B_def by (intro mkdirp_blocked) (simp add: blocked_iff)
    show ?thesis
    proof (cases "?blocked K s")
      case True
      then have "mkdirp h ?k s = (Inl (MkdirError K), s)"
        unfolding K_def by (intro mkdirp_blocked) (simp add: blocked_iff)
      from createGoPathTree_pair [OF m1 this] bB True show ?thesis by simp
    next
      case False
      then have "mkdirp h ?k s = (Inr (), ?mk K s)"
        unfolding K_def by (intro mkdirp_free) (simp add: blocked_iff)
      from createGoPathTree_pair [OF m1 this] bB False show ?thesis by auto
    qed
  next
    case fB: False
    then have m1: "mkdirp h ?b s = (Inr (), ?mk B s)"
      unfolding B_def by (intro mkdirp_free) (simp add: blocked_iff)
    have same: "?blocked K (?mk B s) \<longleftrightarrow> ?blocked K s"
      using fB by auto
    show ?thesis
    proof (cases "?blocked K s")
      case True
      with same have "?blocked K (?mk B s)" by simp
      then have "mkdirp h ?k (?mk B s) = (Inl (MkdirError K), ?mk B s)"
        unfolding K_def by (intro mkdirp_blocked) (simp add: blocked_iff)
      from createGoPathTree_pair [OF m1 this] fB True show ?thesis by auto
    next
      case False
      with same have "\<not> ?blocked K (?mk B s)" by simp
      then have "mkdirp h ?k (?mk B s) = (Inr (), ?mk K (?mk B s))"
        unfolding K_def by (intro mkdirp_free) (simp add: blocked_iff)
      moreover have "?mk K (?mk B s) = (\<lambda>q. if q \<noteq> [] \<and> (prefix q B \<or> prefix q K) then Some Dir else s q)"
        by (auto simp: fun_eq_iff)
      ultimately have "mkdirp h ?k (?mk B s) =
          (Inr (), \<lambda>q. if q \<noteq> [] \<and> (prefix q B \<or> prefix q K) then Some Dir else s q)"
        by simp
      from createGoPathTree_pair [OF m1 this] fB False show ?thesis by simp
    qed
  qed
qed


lemma posix_resolve_bin:
  "path_resolve posix_host (path_join posix_host [''/gopath'', ''bin'']) = [''gopath'', ''bin'']"
  by (simp add: posix_host_def)

lemma posix_resolve_pkg:
  "path_resolve posix_host (path_join posix_host [''/gopath'', ''pkg'', ''linux_amd64'']) =
     [''gopath'', ''pkg'', ''linux_amd64'']"
  by (simp add: posix_host_def)

text \<open>
  C7. With \<open>B\<close> the resolved path of \<open><root>/bin\<close> and \<open>K\<close> that of
  \<open><root>/pkg/<resolved platform>_<resolved arch>\<close>, the tuple built from the resolved
  vendor names: preparation succeeds exactly when no component of \<open>B\<close> or \<open>K\<close> is
  occupied by a file; when it succeeds, the directories afterwards are those before
  together with \<open>B\<close>, \<open>K\<close> and their ancestors, nothing else changes, and a second run
  on the same root succeeds and leaves the file system as it is.
\<close>

theorem workspace_tree_idempotent:
  fixes h root platform arch s s'
  defines "B \<equiv> path_resolve h (path_join h [root, ''bin''])"
    and "K \<equiv> path_resolve h
                 (path_join h [root, ''pkg'', getPlatform platform @ ''_'' @ getArch arch])"
  shows "(fst (createGoPathTree h root platform arch s) = Inr () \<longleftrightarrow>
            \<not> (\<exists>d. d \<noteq> [] \<and> (prefix d B \<or> prefix d K) \<and> s d = Some File))
       \<and> (createGoPathTree h root platform arch s = (Inr (), s') \<longrightarrow>
            s' = (\<lambda>q. if q \<noteq> [] \<and> (prefix q B \<or> prefix q K) then Some Dir else s q)
            \<and> createGoPathTree h root platform arch s' = (Inr (), s'))"
proof -
  let ?run = "createGoPathTree h root platform arch"
  let ?after = "\<lambda>q. if q \<noteq> [] \<and> (prefix q B \<or> prefix q K) then Some Dir else s q"
  have run: "\<And>t. ?run t =
     (if \<exists>d. d \<noteq> [] \<and> prefix d B \<and> t d = Some File
      then (Inl (MkdirError B),
            if \<exists>d. d \<noteq> [] \<and> prefix d K \<and> t d = Some File then t
            else (\<lambda>q. if q \<noteq> [] \<and> prefix q K then Some Dir else t q))
      else if \<exists>d. d \<noteq> [] \<and> prefix d K \<and> t d = Some File
      then (Inl (MkdirError K), \<lambda>q. if q \<noteq> [] \<and> prefix q B then Some Dir else t q)
      else (Inr (), \<lambda>q. if q \<noteq> [] \<and> (prefix q B \<or> prefix q K) then Some Dir else t q))"
    unfolding B_def K_def by (rule createGoPathTree_run)
  have first: "fst (?run s) = Inr () \<longleftrightarrow>
      \<not> (\<exists>d. d \<noteq> [] \<and> (prefix d B \<or> prefix d K) \<and> s d = Some File)"
    unfolding run [of s] by auto
  have second: "s' = ?after \<and> ?run s' = (Inr (), s')" if ok: "?run s = (Inr (), s')"
  proof -
    from ok have free: "\<not> (\<exists>d. d \<noteq> [] \<and> (prefix d B \<or> prefix d K) \<and> s d = Some File)"
      using first by simp
    with ok have s': "s' = ?after" unfolding run [of s] by (auto split: if_splits)
    have free': "\<not> (\<exists>d. d \<noteq> [] \<and> prefix d B \<and> s' d = Some File)"
                "\<not> (\<exists>d. d \<noteq> [] \<and> prefix d K \<and> s' d = Some File)"
      using free unfolding s' by auto
    have again: "(\<lambda>q. if q \<noteq> [] \<and> (prefix q B \<or> prefix q K) then Some Dir else s' q) = s'"
      unfolding s' by (auto simp: fun_eq_iff)
    have "?run s' = (Inr (), s')"
      unfolding run [of s'] using free' again by simp
    with s' show ?thesis by simp
  qed
  from first second show ?thesis by blast
qed

theorem workspace_tree_idempotent_witness:
  "fst (createGoPathTree posix_host ''/gopath'' ''linux'' ''x64'' Map.empty) = Inr ()
   \<and> snd (createGoPathTree posix_host ''/gopath'' ''linux'' ''x64'' Map.empty) [''gopath'', ''bin'']
       = Some Dir
   \<and> snd (createGoPathTree posix_host ''/gopath'' ''linux'' ''x64'' Map.empty)
        [''gopath'', ''pkg'', ''linux_amd64''] = Some Dir
   \<and> snd (createGoPathTree posix_host ''/gopath'' ''linux'' ''x64'' Map.empty) [''gopath'', ''src'']
       = None
   \<and> createGoPathTree posix_host ''/gopath'' ''linux'' ''x64''
        (snd (createGoPathTree posix_host ''/gopath'' ''linux'' ''x64'' Map.empty))
       = (Inr (), snd (createGoPathTree posix_host ''/gopath'' ''linux'' ''x64'' Map.empty))"
proof -
  let ?r = "createGoPathTree posix_host ''/gopath'' ''linux'' ''x64'' Map.empty"
  note t = workspace_tree_idempotent [of posix_host "''/gopath''" "''linux''" "''x64''" Map.empty "snd ?r"]
  have names: "getPlatform ''linux'' @ ''_'' @ getArch ''x64'' = ''linux_amd64''"
    by (simp add: getPlatform_other getArch_simps)
  from t have ok: "fst ?r = Inr ()" by simp
  then have "?r = (Inr (), snd ?r)" by (metis prod.collapse)
  with t show ?thesis
    using ok unfolding names posix_resolve_bin posix_resolve_pkg by simp
qed

section \<open>The exported function name\<close>

lemma execa_exited:
  "spawn h call s = (Exited code out, s') \<Longrightarrow>
     execa h call s =
       (if code = 0 then Inr (strip_eof out) else Inl (ExecaError (Exited code out)), s')"
  by (simp add: execa_def)

lemma execa_spawn_failed:
  "spawn h call s = (SpawnFailed, s') \<Longrightarrow> execa h call s = (Inl (ExecaError SpawnFailed), s')"
  by (simp add: execa_def)

lemma strip_eof_nil: "strip_eof [] = []"
  by (simp add: strip_eof_def)

lemma strip_eof_lf: "w = [] \<or> last w \<noteq> CHR 0x0D \<Longrightarrow> strip_eof (w @ [CHR 0x0A]) = w"
  by (auto simp: strip_eof_def)

lemma strip_eof_crlf: "strip_eof (w @ [CHR 0x0D, CHR 0x0A]) = w"
proof -
  have "butlast (w @ [CHR 0x0D, CHR 0x0A]) = w @ [CHR 0x0D]"
    by (simp add: butlast_append)
  then show ?thesis by (simp add: strip_eof_def)
qed

lemma strip_eof_cr: "strip_eof (w @ [CHR 0x0D]) = w"
  by (simp add: strip_eof_def)

lemma strip_eof_other:
  "x = [] \<or> (last x \<noteq> CHR 0x0A \<and> last x \<noteq> CHR 0x0D) \<Longrightarrow> strip_eof x = x"
  by (auto simp: strip_eof_def)

text \<open>
  C3, as the code has it. The detector is started with the source file path as its sole
  argument. When it exits with status 0, the call returns its standard output as
  \<open>execa\<close> delivers it, \<open>strip_eof\<close> of the output: a final line feed is removed if
  there is one, and then a final carriage return if there is one, so that a trailing LF,
  a trailing CR LF and a lone trailing CR are dropped; an output that ends in neither is
  returned as it is, no other white space is removed, and the result is the empty string
  when the detector printed nothing. When the detector exits with any other status, or
  cannot be started, the call fails with that error.
\<close>

theorem exported_name_from_detector:
  fixes h filePath s
  defines "call \<equiv> \<lparr>inv_file = path_join h [module_dirname h, ''get-exported-function-name''],
                    inv_args = [filePath], inv_stdio = None, inv_cwd = None, inv_env = None\<rparr>"
  shows "(spawn h call s = (Exited 0 out, s') \<longrightarrow>
            getExportedFunctionName h filePath s = (Inr (strip_eof out), s'))
       \<and> (spawn h call s = (Exited 0 [], s') \<longrightarrow>
            getExportedFunctionName h filePath s = (Inr [], s'))
       \<and> (spawn h call s = (Exited code out, s') \<longrightarrow> code \<noteq> 0 \<longrightarrow>
            getExportedFunctionName h filePath s = (Inl (ExecaError (Exited code out)), s'))
       \<and> (spawn h call s = (SpawnFailed, s') \<longrightarrow>
            getExportedFunctionName h filePath s = (Inl (ExecaError SpawnFailed), s'))
       \<and> strip_eof [] = []
       \<and> (w = [] \<or> last w \<noteq> CHR 0x0D \<longrightarrow> strip_eof (w @ [CHR 0x0A]) = w)
       \<and> strip_eof (w @ [CHR 0x0D, CHR 0x0A]) = w
       \<and> strip_eof (w @ [CHR 0x0D]) = w
       \<and> (x = [] \<or> (last x \<noteq> CHR 0x0A \<and> last x \<noteq> CHR 0x0D) \<longrightarrow> strip_eof x = x)"
proof -
  have run: "(spawn h call s = (Exited 0 out, s') \<longrightarrow>
            getExportedFunctionName h filePath s = (Inr (strip_eof out), s'))
       \<and> (spawn h call s = (Exited 0 [], s') \<longrightarrow>
            getExportedFunctionName h filePath s = (Inr [], s'))
       \<and> (spawn h call s = (Exited code out, s') \<longrightarrow> code \<noteq> 0 \<longrightarrow>
            getExportedFunctionName h filePath s = (Inl (ExecaError (Exited code out)), s'))
       \<and> (spawn h call s = (SpawnFailed, s') \<longrightarrow>
            getExportedFunctionName h filePath s = (Inl (ExecaError SpawnFailed), s'))"
    unfolding call_def
    by (simp add: getExportedFunctionName_def execa_exited execa_spawn_failed strip_eof_nil)
  have lf: "w = [] \<or> last w \<noteq> CHR 0x0D \<longrightarrow> strip_eof (w @ [CHR 0x0A]) = w"
    using strip_eof_lf [of w] by blast
  have other: "x = [] \<or> (last x \<noteq> CHR 0x0A \<and> last x \<noteq> CHR 0x0D) \<longrightarrow> strip_eof x = x"
    using strip_eof_other [of x] by blast
  from run have r1: "spawn h call s = (Exited 0 out, s') \<longrightarrow>
            getExportedFunctionName h filePath s = (Inr (strip_eof out), s')"
    and r2: "spawn h call s = (Exited 0 [], s') \<longrightarrow>
            getExportedFunctionName h filePath s = (Inr [], s')"
    and r3: "spawn h call s = (Exited code out, s') \<longrightarrow> code \<noteq> 0 \<longrightarrow>
            getExportedFunctionName h filePath s = (Inl (ExecaError (Exited code out)), s')"
    and r4: "spawn h call s = (SpawnFailed, s') \<longrightarrow>
            getExportedFunctionName h filePath s = (Inl (ExecaError SpawnFailed), s')"
    by blast+
  show ?thesis
    by (intro conjI r1 r2 r3 r4 lf other strip_eof_nil strip_eof_crlf strip_eof_cr)
qed

theorem exported_name_from_detector_witness:
  "getExportedFunctionName
     (posix_host\<lparr>spawn := \<lambda>call s.
        if inv_file call = ''/app/get-exported-function-name'' \<and> inv_args call = [''main.go'']
        then (Exited 0 (''Handler'' @ [CHR 0x0A]), s) else (Exited 1 [], s)\<rparr>)
     ''main.go'' Map.empty = (Inr ''Handler'', Map.empty)
   \<and> getExportedFunctionName
       (posix_host\<lparr>spawn := \<lambda>call s. (Exited 0 ('' Handler '' @ [CHR 0x0D]), s)\<rparr>)
       ''main.go'' Map.empty = (Inr '' Handler '', Map.empty)
   \<and> getExportedFunctionName (posix_host\<lparr>spawn := \<lambda>call s. (Exited 0 ''Handler'', s)\<rparr>)
       ''main.go'' Map.empty = (Inr ''Handler'', Map.empty)
   \<and> getExportedFunctionName (posix_host\<lparr>spawn := \<lambda>call s. (Exited 0 [], s)\<rparr>)
       ''main.go'' Map.empty = (Inr [], Map.empty)
   \<and> getExportedFunctionName (posix_host\<lparr>spawn := \<lambda>call s. (Exited 2 ''x'', s)\<rparr>)
       ''main.go'' Map.empty = (Inl (ExecaError (Exited 2 ''x'')), Map.empty)
   \<and> getExportedFunctionName (posix_host\<lparr>spawn := \<lambda>call s. (SpawnFailed, s)\<rparr>)
       ''main.go'' Map.empty = (Inl (ExecaError SpawnFailed), Map.empty)"
proof -
  let ?h = "posix_host\<lparr>spawn := \<lambda>call s.
        if inv_file call = ''/app/get-exported-function-name'' \<and> inv_args call = [''main.go'']
        then (Exited 0 (''Handler'' @ [CHR 0x0A]), s) else (Exited 1 [], s)\<rparr>"
  have "getExportedFunctionName ?h ''main.go'' Map.empty = (Inr ''Handler'', Map.empty)"
    using exported_name_from_detector
      [where h = ?h and filePath = "''main.go''" and s = Map.empty and s' = Map.empty
         and out = "''Handler'' @ [CHR 0x0A]" and w = "''Handler''"]
    by (simp add: posix_host_def)
  moreover have "getExportedFunctionName
       (posix_host\<lparr>spawn := \<lambda>call s. (Exited 0 ('' Handler '' @ [CHR 0x0D]), s)\<rparr>)
       ''main.go'' Map.empty = (Inr '' Handler '', Map.empty)"
    using exported_name_from_detector
      [where h = "posix_host\<lparr>spawn := \<lambda>call s. (Exited 0 ('' Handler '' @ [CHR 0x0D]), s)\<rparr>"
         and filePath = "''main.go''" and s = Map.empty and s' = Map.empty
         and out = "'' Handler '' @ [CHR 0x0D]" and w = "'' Handler ''"]
    by simp
  moreover have "getExportedFunctionName
       (posix_host\<lparr>spawn := \<lambda>call s. (Exited 0 ''Handler'', s)\<rparr>)
       ''main.go'' Map.empty = (Inr ''Handler'', Map.empty)"
    using exported_name_from_detector
      [where h = "posix_host\<lparr>spawn := \<lambda>call s. (Exited 0 ''Handler'', s)\<rparr>"
         and filePath = "''main.go''" and s = Map.empty and s' = Map.empty
         and out = "''Handler''" and x = "''Handler''"]
    by simp
  moreover have "getExportedFunctionName (posix_host\<lparr>spawn := \<lambda>call s. (Exited 0 [], s)\<rparr>)
       ''main.go'' Map.empty = (Inr [], Map.empty)"
    using exported_name_from_detector
      [where h = "posix_host\<lparr>spawn := \<lambda>call s. (Exited 0 [], s)\<rparr>"
         and filePath = "''main.go''" and s = Map.empty and s' = Map.empty]
    by simp
  moreover have "getExportedFunctionName (posix_host\<lparr>spawn := \<lambda>call s. (Exited 2 ''x'', s)\<rparr>)
      ''main.go'' Map.empty = (Inl (ExecaError (Exited 2 ''x'')), Map.empty)"
    using exported_name_from_detector
      [where h = "posix_host\<lparr>spawn := \<lambda>call s. (Exited 2 ''x'', s)\<rparr>"
         and filePath = "''main.go''" and s = Map.empty and s' = Map.empty
         and code = 2 and out = "''x''"]
    by simp
  moreover have "getExportedFunctionName (posix_host\<lparr>spawn := \<lambda>call s. (SpawnFailed, s)\<rparr>)
      ''main.go'' Map.empty = (Inl (ExecaError SpawnFailed), Map.empty)"
    using exported_name_from_detector
      [where h = "posix_host\<lparr>spawn := \<lambda>call s. (SpawnFailed, s)\<rparr>"
         and filePath = "''main.go''" and s = Map.empty and s' = Map.empty]
    by simp
  ultimately show ?thesis by simp
qed

text \<open>
  The claim as stated fails in both of its parts. It asks for a failure on empty output:
  a detector that exits with status 0 and prints nothing makes the call return the empty
  string. It asks for the trimmed output: a detector that prints \<open>Handler\<close> between two
  spaces and a line feed makes the call return the name with both spaces, where the
  trimmed output is the bare name.
\<close>

theorem exported_name_empty_output_counterexample:
  "getExportedFunctionName (posix_host\<lparr>spawn := \<lambda>call s. (Exited 0 [], s)\<rparr>)
      ''main.go'' Map.empty = (Inr [], Map.empty)
   \<and> getExportedFunctionName
       (posix_host\<lparr>spawn := \<lambda>call s. (Exited 0 ('' Handler '' @ [CHR 0x0A]), s)\<rparr>)
       ''main.go'' Map.empty = (Inr '' Handler '', Map.empty)
   \<and> trimmed ('' Handler '' @ [CHR 0x0A]) = ''Handler''
   \<and> '' Handler '' \<noteq> trimmed ('' Handler '' @ [CHR 0x0A])"
proof -
  have t: "trimmed ('' Handler '' @ [CHR 0x0A]) = ''Handler''"
    by (simp add: trimmed_def is_space_def)
  have "getExportedFunctionName
       (posix_host\<lparr>spawn := \<lambda>call s. (Exited 0 ('' Handler '' @ [CHR 0x0A]), s)\<rparr>)
       ''main.go'' Map.empty = (Inr '' Handler '', Map.empty)"
    by (simp add: getExportedFunctionName_def execa_def strip_eof_def)
  moreover have "getExportedFunctionName (posix_host\<lparr>spawn := \<lambda>call s. (Exited 0 [], s)\<rparr>)
      ''main.go'' Map.empty = (Inr [], Map.empty)"
    by (simp add: getExportedFunctionName_def execa_def strip_eof_def)
  ultimately show ?thesis unfolding t by simp
qed

section \<open>The environment of the go handle\<close>

lemma createGo_env_apply:
  "createGo_env h goPath opts goMod k =
     (if goMod \<and> k = ''GO111MODULE'' then Some ''on''
      else case spread (opt_env opts) k of
             Some v \<Rightarrow> Some v
           | None \<Rightarrow>
               if k = ''GOPATH'' then Some goPath
               else if k = ''PATH''
               then Some (path_dirname h (GO_BIN h) @ '':'' @
                      (case process_env h ''PATH'' of None \<Rightarrow> ''undefined'' | Some p \<Rightarrow> p))
               else process_env h k)"
  by (simp add: createGo_env_def Let_def map_add_def split: option.splits)

lemma createGo_handle:
  "createGo h goPath platform arch opts goMod s = (Inr g, s') \<Longrightarrow>
     g = \<lparr>go_env = createGo_env h goPath opts goMod, go_opts = opts,
          go_cwd = (case opt_cwd opts of None \<Rightarrow> process_cwd h
                    | Some c \<Rightarrow> if c = [] then process_cwd h else c),
          go_goPath = goPath\<rparr>"
  by (simp add: createGo_def Let_def split: prod.splits sum.splits)

lemma createGo_tree:
  "createGoPathTree h goPath platform arch s = (Inr u, s') \<Longrightarrow>
     createGo h goPath platform arch opts goMod s =
       (Inr \<lparr>go_env = createGo_env h goPath opts goMod, go_opts = opts,
             go_cwd = (case opt_cwd opts of None \<Rightarrow> process_cwd h
                       | Some c \<Rightarrow> if c = [] then process_cwd h else c),
             go_goPath = goPath\<rparr>, s')"
  by (simp add: createGo_def Let_def)

lemma env_override: "k \<in> dom (spread (opt_env opts)) \<Longrightarrow> \<not> (goMod \<and> k = ''GO111MODULE'') \<Longrightarrow>
      createGo_env h goPath opts goMod k = spread (opt_env opts) k"
  by (auto simp: createGo_env_apply)

lemma env_module_flag: "createGo_env h goPath opts True ''GO111MODULE'' = Some ''on''"
  by (simp add: createGo_env_apply)

lemma env_path: "''PATH'' \<notin> dom (spread (opt_env opts)) \<Longrightarrow>
        createGo_env h goPath opts goMod ''PATH'' =
          Some (path_dirname h (GO_BIN h) @ '':'' @
                  (case process_env h ''PATH'' of None \<Rightarrow> ''undefined'' | Some p \<Rightarrow> p))"
  by (simp add: createGo_env_apply domIff)

lemma env_gopath: "''GOPATH'' \<notin> dom (spread (opt_env opts)) \<Longrightarrow>
        createGo_env h goPath opts goMod ''GOPATH'' = Some goPath"
  by (simp add: createGo_env_apply domIff)

lemma empty_fs_tree: "fst (createGoPathTree h goPath platform arch Map.empty) = Inr ()"
  by (simp add: createGoPathTree_def mkdirp_def Let_def list_ex_iff fold_mk_apply)

lemma posix_bin_dir: "path_dirname posix_host (GO_BIN posix_host) = ''/app/go/bin''"
  by (simp add: posix_host_def GO_BIN_def GO_DIR_def)

text \<open>
  C1, as the code has it. In the environment that \<open>createGo\<close> composes, every
  variable of \<open>opts.env\<close> keeps the caller's value, except \<open>GO111MODULE\<close> when
  \<open>goMod\<close> is set: that variable is then \<open>on\<close> whatever the caller supplied. Unless
  \<open>opts.env\<close> binds them, \<open>PATH\<close> is the directory of the go binary, a colon and the
  ambient \<open>PATH\<close>, and \<open>GOPATH\<close> is \<open>goPath\<close>. The handle that a successful
  \<open>createGo\<close> returns carries this environment and passes it to every call of go.
\<close>

theorem createGo_environment:
  "(k \<in> dom (spread (opt_env opts)) \<longrightarrow> \<not> (goMod \<and> k = ''GO111MODULE'') \<longrightarrow>
      createGo_env h goPath opts goMod k = spread (opt_env opts) k)
   \<and> (goMod \<longrightarrow> createGo_env h goPath opts goMod ''GO111MODULE'' = Some ''on'')
   \<and> (''PATH'' \<notin> dom (spread (opt_env opts)) \<longrightarrow>
        createGo_env h goPath opts goMod ''PATH'' =
          Some (path_dirname h (GO_BIN h) @ '':'' @
                  (case process_env h ''PATH'' of None \<Rightarrow> ''undefined'' | Some p \<Rightarrow> p)))
   \<and> (''GOPATH'' \<notin> dom (spread (opt_env opts)) \<longrightarrow>
        createGo_env h goPath opts goMod ''GOPATH'' = Some goPath)
   \<and> (createGo h goPath platform arch opts goMod s = (Inr g, s') \<longrightarrow>
        go_env g = createGo_env h goPath opts goMod
        \<and> go h g args s' =
            execa h \<lparr>inv_file = ''go'', inv_args = args,
                      inv_stdio = (case opt_stdio opts of None \<Rightarrow> Some ''inherit''
                                   | Some v \<Rightarrow> Some v),
                      inv_cwd = opt_cwd opts,
                      inv_env = Some (createGo_env h goPath opts goMod)\<rparr> s')"
proof -
  have A: "k \<in> dom (spread (opt_env opts)) \<longrightarrow> \<not> (goMod \<and> k = ''GO111MODULE'') \<longrightarrow>
      createGo_env h goPath opts goMod k = spread (opt_env opts) k"
    using env_override [of k opts goMod h goPath] by simp
  have B: "goMod \<longrightarrow> createGo_env h goPath opts goMod ''GO111MODULE'' = Some ''on''"
    using env_module_flag [of h goPath opts] by simp
  have C: "''PATH'' \<notin> dom (spread (opt_env opts)) \<longrightarrow>
        createGo_env h goPath opts goMod ''PATH'' =
          Some (path_dirname h (GO_BIN h) @ '':'' @
                  (case process_env h ''PATH'' of None \<Rightarrow> ''undefined'' | Some p \<Rightarrow> p))"
    using env_path [of opts h goPath goMod] by simp
  have D: "''GOPATH'' \<notin> dom (spread (opt_env opts)) \<longrightarrow>
        createGo_env h goPath opts goMod ''GOPATH'' = Some goPath"
    using env_gopath [of opts h goPath goMod] by simp
  have E: "createGo h goPath platform arch opts goMod s = (Inr g, s') \<longrightarrow>
        go_env g = createGo_env h goPath opts goMod
        \<and> go h g args s' =
            execa h \<lparr>inv_file = ''go'', inv_args = args,
                      inv_stdio = (case opt_stdio opts of None \<Rightarrow> Some ''inherit''
                                   | Some v \<Rightarrow> Some v),
                      inv_cwd = opt_cwd opts,
                      inv_env = Some (createGo_env h goPath opts goMod)\<rparr> s'"
  proof
    assume "createGo h goPath platform arch opts goMod s = (Inr g, s')"
    from createGo_handle [OF this] show "go_env g = createGo_env h goPath opts goMod
        \<and> go h g args s' =
            execa h \<lparr>inv_file = ''go'', inv_args = args,
                      inv_stdio = (case opt_stdio opts of None \<Rightarrow> Some ''inherit''
                                   | Some v \<Rightarrow> Some v),
                      inv_cwd = opt_cwd opts,
                      inv_env = Some (createGo_env h goPath opts goMod)\<rparr> s'"
      by (simp add: go_def)
  qed
  show ?thesis by (intro conjI A B C D E)
qed

theorem createGo_environment_witness:
  "createGo_env posix_host ''/gopath''
      \<lparr>opt_env = Some [''GOPATH'' \<mapsto> ''/mine'', ''GO111MODULE'' \<mapsto> ''off''], opt_cwd = None,
        opt_stdio = None\<rparr> True ''GOPATH'' = Some ''/mine''
   \<and> createGo_env posix_host ''/gopath''
      \<lparr>opt_env = Some [''GOPATH'' \<mapsto> ''/mine'', ''GO111MODULE'' \<mapsto> ''off''], opt_cwd = None,
        opt_stdio = None\<rparr> True ''GO111MODULE'' = Some ''on''
   \<and> createGo_env posix_host ''/gopath''
      \<lparr>opt_env = Some [''GOPATH'' \<mapsto> ''/mine'', ''GO111MODULE'' \<mapsto> ''off''], opt_cwd = None,
        opt_stdio = None\<rparr> True ''PATH'' = Some ''/app/go/bin:/usr/bin''
   \<and> createGo_env posix_host ''/gopath'' no_opts False ''GOPATH'' = Some ''/gopath''
   \<and> map_sum id (\<lambda>g. go_env g ''GOPATH'')
        (fst (createGo posix_host ''/gopath'' ''linux'' ''x64'' no_opts False Map.empty))
       = Inr (Some ''/gopath'')"
proof -
  let ?o = "\<lparr>opt_env = Some [''GOPATH'' \<mapsto> ''/mine'', ''GO111MODULE'' \<mapsto> ''off''],
             opt_cwd = None, opt_stdio = None\<rparr>"
  have p: "process_env posix_host ''PATH'' = Some ''/usr/bin''"
    by (simp add: posix_host_def)
  have "createGo_env posix_host ''/gopath'' ?o True ''GOPATH'' = Some ''/mine''"
    using createGo_environment [where k = "''GOPATH''" and opts = ?o and goMod = True
        and h = posix_host and goPath = "''/gopath''"]
    by (simp add: spread_def)
  moreover have "createGo_env posix_host ''/gopath'' ?o True ''GO111MODULE'' = Some ''on''
     \<and> createGo_env posix_host ''/gopath'' ?o True ''PATH'' = Some ''/app/go/bin:/usr/bin''"
    using createGo_environment [where k = "''GOPATH''" and opts = ?o and goMod = True
        and h = posix_host and goPath = "''/gopath''"]
    by (simp add: spread_def posix_bin_dir p)
  moreover have "createGo_env posix_host ''/gopath'' no_opts False ''GOPATH'' = Some ''/gopath''
     \<and> map_sum id (\<lambda>g. go_env g ''GOPATH'')
          (fst (createGo posix_host ''/gopath'' ''linux'' ''x64'' no_opts False Map.empty))
         = Inr (Some ''/gopath'')"
  proof -
    let ?g = "\<lparr>go_env = createGo_env posix_host ''/gopath'' no_opts False, go_opts = no_opts,
               go_cwd = (case opt_cwd no_opts of None \<Rightarrow> process_cwd posix_host
                         | Some c \<Rightarrow> if c = [] then process_cwd posix_host else c),
               go_goPath = ''/gopath''\<rparr>"
    let ?s = "snd (createGoPathTree posix_host ''/gopath'' ''linux'' ''x64'' Map.empty)"
    have "createGoPathTree posix_host ''/gopath'' ''linux'' ''x64'' Map.empty = (Inr (), ?s)"
      using empty_fs_tree [of posix_host "''/gopath''" "''linux''" "''x64''"]
      by (metis prod.collapse)
    from createGo_tree [OF this, of no_opts False]
    have made: "createGo posix_host ''/gopath'' ''linux'' ''x64'' no_opts False Map.empty
                  = (Inr ?g, ?s)" .
    show ?thesis
      using made createGo_environment
        [where k = "''GOPATH''" and opts = no_opts and goMod = False and h = posix_host
           and goPath = "''/gopath''" and platform = "''linux''" and arch = "''x64''"
           and s = Map.empty and g = ?g and s' = ?s]
      by (simp add: spread_def no_opts_def)
  qed
  ultimately show ?thesis by simp
qed

text \<open>
  The claim as stated lets the caller's \<open>GO111MODULE\<close> win also when \<open>goMod\<close> is
  set. With \<open>opts.env = {GO111MODULE: 'off'}\<close> and \<open>goMod\<close> true the environment, and
  the handle returned, hold \<open>on\<close>.
\<close>

theorem createGo_module_flag_counterexample:
  "[''GO111MODULE'' \<mapsto> ''off''] ''GO111MODULE'' = Some ''off''
   \<and> createGo_env posix_host ''/gopath''
        \<lparr>opt_env = Some [''GO111MODULE'' \<mapsto> ''off''], opt_cwd = None, opt_stdio = None\<rparr> True
        ''GO111MODULE'' = Some ''on''
   \<and> map_sum id (\<lambda>g. go_env g ''GO111MODULE'')
        (fst (createGo posix_host ''/gopath'' ''linux'' ''x64''
               \<lparr>opt_env = Some [''GO111MODULE'' \<mapsto> ''off''], opt_cwd = None, opt_stdio = None\<rparr>
               True Map.empty)) = Inr (Some ''on'')"
proof -
  let ?o = "\<lparr>opt_env = Some [''GO111MODULE'' \<mapsto> ''off''], opt_cwd = None, opt_stdio = None\<rparr>"
  have e: "createGo_env posix_host ''/gopath'' ?o True ''GO111MODULE'' = Some ''on''"
    by (simp add: createGo_env_apply)
  have "fst (createGoPathTree posix_host ''/gopath'' ''linux'' ''x64'' Map.empty) = Inr ()"
    by (rule empty_fs_tree)
  then obtain s' where "createGoPathTree posix_host ''/gopath'' ''linux'' ''x64'' Map.empty = (Inr (), s')"
    by (metis prod.collapse)
  from createGo_tree [OF this, of ?o True] e show ?thesis by simp
qed

section \<open>Fetching dependencies and building\<close>

text \<open>
  C9, as the code has it. Without a source path, and also with the empty string as the
  source path, \<open>get\<close> runs go with the single argument \<open>get\<close> and no trailing
  argument; with a non-empty source path \<open>p\<close> it runs go with the arguments \<open>get p\<close>,
  \<open>p\<close> the sole argument after \<open>get\<close>. The code tests the path for truthiness, and
  the empty string is falsy.
\<close>

theorem get_command_shape:
  "get h g None s = discard (execa h (go_call g [''get'']) s)
   \<and> (p \<noteq> [] \<longrightarrow> get h g (Some p) s = discard (execa h (go_call g [''get'', p]) s))
   \<and> get h g (Some []) s = discard (execa h (go_call g [''get'']) s)"
  by (simp add: get_def go_def)

theorem get_command_shape_witness:
  "get (posix_host\<lparr>spawn := \<lambda>call s.
          if inv_file call = ''go'' \<and> inv_args call = [''get'', ''main.go'']
          then (Exited 0 [], s) else (Exited 1 [], s)\<rparr>)
       \<lparr>go_env = Map.empty, go_opts = no_opts, go_cwd = ''/work'', go_goPath = ''/gopath''\<rparr>
       (Some ''main.go'') Map.empty = (Inr (), Map.empty)"
  using get_command_shape
    [where p = "''main.go''" and s = Map.empty
       and g = "\<lparr>go_env = Map.empty, go_opts = no_opts, go_cwd = ''/work'', go_goPath = ''/gopath''\<rparr>"
       and h = "posix_host\<lparr>spawn := \<lambda>call s.
          if inv_file call = ''go'' \<and> inv_args call = [''get'', ''main.go'']
          then (Exited 0 [], s) else (Exited 1 [], s)\<rparr>"]
  by (simp add: execa_def discard_def strip_eof_def)

text \<open>
  The claim as stated covers every source path. With the empty string as the source
  path the call is \<open>get\<close> alone, not \<open>get\<close> followed by the empty argument: on a host
  where go succeeds only when \<open>get\<close> is its single argument, \<open>get\<close> succeeds, where
  the call with the two arguments fails.
\<close>

theorem get_empty_source_counterexample:
  "get (posix_host\<lparr>spawn := \<lambda>call s.
          if inv_file call = ''go'' \<and> inv_args call = [''get'']
          then (Exited 0 [], s) else (Exited 1 [], s)\<rparr>)
       \<lparr>go_env = Map.empty, go_opts = no_opts, go_cwd = ''/work'', go_goPath = ''/gopath''\<rparr>
       (Some []) Map.empty = (Inr (), Map.empty)
   \<and> discard (execa (posix_host\<lparr>spawn := \<lambda>call s.
          if inv_file call = ''go'' \<and> inv_args call = [''get'']
          then (Exited 0 [], s) else (Exited 1 [], s)\<rparr>)
        (go_call \<lparr>go_env = Map.empty, go_opts = no_opts, go_cwd = ''/work'',
                   go_goPath = ''/gopath''\<rparr> [''get'', []]) Map.empty)
       = (Inl (ExecaError (Exited 1 [])), Map.empty)"
  by (simp add: get_def go_def execa_def discard_def strip_eof_def)

text \<open>
  C8. \<open>build\<close> with a single source path is the same call as \<open>build\<close> with the
  one-element sequence of that path, and for every sequence of sources the arguments of
  go are \<open>build -o <destination>\<close> followed by the sources in their order.
\<close>

theorem build_single_is_singleton:
  "build h g (One x) dest s = build h g (Many [x]) dest s
   \<and> build h g (One x) dest s = discard (execa h (go_call g [''build'', ''-o'', dest, x]) s)
   \<and> build h g (Many xs) dest s =
       discard (execa h (go_call g (''build'' # ''-o'' # dest # xs)) s)"
  by (simp add: build_def go_def)

text \<open>
  C10. \<open>build\<close> does not check that the sources are non-empty: with an empty array
  it runs go with the arguments \<open>build -o <destination>\<close> and nothing after them, and
  it succeeds whenever that process exits with status 0.
\<close>

theorem build_empty_sources:
  "build h g (Many []) dest s = discard (execa h (go_call g [''build'', ''-o'', dest]) s)
   \<and> (spawn h (go_call g [''build'', ''-o'', dest]) s = (Exited 0 out, s') \<longrightarrow>
        build h g (Many []) dest s = (Inr (), s'))"
  by (simp add: build_def go_def execa_def discard_def)

theorem build_empty_sources_witness:
  "build (posix_host\<lparr>spawn := \<lambda>call s.
          if inv_file call = ''go'' \<and> inv_args call = [''build'', ''-o'', ''handler'']
          then (Exited 0 [], s) else (Exited 1 [], s)\<rparr>)
       \<lparr>go_env = Map.empty, go_opts = no_opts, go_cwd = ''/work'', go_goPath = ''/gopath''\<rparr>
       (Many []) ''handler'' Map.empty = (Inr (), Map.empty)"
  using build_empty_sources
    [where dest = "''handler''" and s = Map.empty and s' = Map.empty and out = "[]"
       and g = "\<lparr>go_env = Map.empty, go_opts = no_opts, go_cwd = ''/work'', go_goPath = ''/gopath''\<rparr>"
       and h = "posix_host\<lparr>spawn := \<lambda>call s.
          if inv_file call = ''go'' \<and> inv_args call = [''build'', ''-o'', ''handler'']
          then (Exited 0 [], s) else (Exited 1 [], s)\<rparr>"]
  by (simp add: execa_def discard_def strip_eof_def)

section \<open>Download\<close>

lemma string_of_nat_404: "string_of_nat 404 = ''404''"
  by code_simp

text \<open>
  C5. When the response to the download is not successful, \<open>downloadGo\<close> fails with
  the error \<open>Failed to download: <url> (<status>)\<close>, whose message contains the URL
  and the status code; the file system is left as it was (no directory is created and
  the extractor does not run) and no handle is returned.
\<close>

theorem download_failure_reported:
  assumes "fetch h (getGoUrl version platform arch) = Inr res" and "\<not> ok res"
  shows "downloadGo h dir version platform arch s =
           (Inl (Error (''Failed to download: '' @ getGoUrl version platform arch @ '' ('' @
                          string_of_nat (status res) @ '')'')), s)
       \<and> sublist (getGoUrl version platform arch)
           (''Failed to download: '' @ getGoUrl version platform arch @ '' ('' @
              string_of_nat (status res) @ '')'')
       \<and> sublist (string_of_nat (status res))
           (''Failed to download: '' @ getGoUrl version platform arch @ '' ('' @
              string_of_nat (status res) @ '')'')"
proof -
  let ?url = "getGoUrl version platform arch"
  let ?code = "string_of_nat (status res)"
  have "downloadGo h dir version platform arch s =
          (Inl (Error (''Failed to download: '' @ ?url @ '' ('' @ ?code @ '')'')), s)"
    using assms by (simp add: downloadGo_def)
  moreover have "sublist ?url (''Failed to download: '' @ ?url @ ('' ('' @ ?code @ '')''))"
    by (rule sublist_appendI)
  moreover have "sublist ?code ((''Failed to download: '' @ ?url @ '' ('') @ ?code @ '')'')"
    by (rule sublist_appendI)
  ultimately show ?thesis by simp
qed

theorem download_failure_reported_witness:
  "downloadGo (posix_host\<lparr>fetch := \<lambda>url. Inr \<lparr>ok = False, status = 404, body = []\<rparr>\<rparr>)
      ''/opt/go'' ''1.12'' ''linux'' ''x64'' Map.empty =
     (Inl (Error ''Failed to download: https://dl.google.com/go/go1.12.linux-amd64.tar.gz (404)''),
      Map.empty)"
proof -
  have url: "getGoUrl ''1.12'' ''linux'' ''x64'' = ''https://dl.google.com/go/go1.12.linux-amd64.tar.gz''"
    by (simp add: getGoUrl_def getArch_simps getPlatform_other)
  show ?thesis
    using download_failure_reported
      [of "posix_host\<lparr>fetch := \<lambda>url. Inr \<lparr>ok = False, status = 404, body = []\<rparr>\<rparr>"
          "''1.12''" "''linux''" "''x64''" "\<lparr>ok = False, status = 404, body = []\<rparr>"
          "''/opt/go''" Map.empty]
    by (simp add: url string_of_nat_404)
qed

text \<open>
  C4. The claim asks \<open>downloadGo\<close> to fail explicitly for \<open>win32\<close>, where the
  archive is a zip. The code has no such branch: for \<open>win32\<close> the URL ends in
  \<open>.zip\<close>, and once the response is successful the body goes to the tar extractor as
  for every other platform; when that stream finishes without an error, \<open>downloadGo\<close>
  goes on to \<open>createGo\<close> and returns its handle.
\<close>

theorem downloadGo_zip_through_tar:
  assumes "fetch h (getGoUrl version ''win32'' arch) = Inr res" and "ok res"
    and "mkdirp h dir s = (Inr (), s1)"
    and "tar_extract h dir 1 (body res) s1 = (None, s2)"
  shows "suffix ''.zip'' (getGoUrl version ''win32'' arch)
       \<and> downloadGo h dir version ''win32'' arch s = createGo h dir ''win32'' arch no_opts False s2"
proof -
  have "getGoUrl version ''win32'' arch =
          (''https://dl.google.com/go/go'' @ version @ ''.'' @ getPlatform ''win32'' @ ''-'' @
             getArch arch) @ ''.zip''"
    by (simp add: getGoUrl_def)
  then have "suffix ''.zip'' (getGoUrl version ''win32'' arch)"
    by (metis suffixI)
  moreover have "downloadGo h dir version ''win32'' arch s =
      createGo h dir ''win32'' arch no_opts False s2"
    using assms by (simp add: downloadGo_def)
  ultimately show ?thesis by simp
qed

theorem downloadGo_zip_through_tar_witness:
  "map_sum id go_goPath
     (fst (downloadGo posix_host ''/opt/go'' ''1.12'' ''win32'' ''x64'' Map.empty)) = Inr ''/opt/go''"
proof -
  let ?res = "\<lparr>ok = True, status = 200, body = ''PK''\<rparr>"
  have f: "fetch posix_host (getGoUrl ''1.12'' ''win32'' ''x64'') = Inr ?res"
    by (simp add: posix_host_def)
  have "fst (mkdirp posix_host ''/opt/go'' Map.empty) = Inr ()"
    by (simp add: mkdirp_def list_ex_iff)
  then have m: "mkdirp posix_host ''/opt/go'' Map.empty =
      (Inr (), snd (mkdirp posix_host ''/opt/go'' Map.empty))"
    by (metis prod.collapse)
  have s1: "snd (mkdirp posix_host ''/opt/go'' Map.empty) = [[''opt''] \<mapsto> Dir, [''opt'', ''go''] \<mapsto> Dir]"
    by (simp add: mkdirp_def list_ex_iff posix_host_def)
  have t: "tar_extract posix_host ''/opt/go'' 1 (body ?res) (snd (mkdirp posix_host ''/opt/go'' Map.empty))
      = (None, snd (mkdirp posix_host ''/opt/go'' Map.empty))"
    by (simp add: posix_host_def)
  have "fst (createGoPathTree posix_host ''/opt/go'' ''win32'' ''x64''
               [[''opt''] \<mapsto> Dir, [''opt'', ''go''] \<mapsto> Dir]) = Inr ()"
    by (simp add: createGoPathTree_def mkdirp_def Let_def list_ex_iff fold_mk_apply split: prod.splits)
  then obtain s' where "createGoPathTree posix_host ''/opt/go'' ''win32'' ''x64''
               [[''opt''] \<mapsto> Dir, [''opt'', ''go''] \<mapsto> Dir] = (Inr (), s')"
    by (metis prod.collapse)
  from createGo_tree [OF this, of no_opts False]
  have "map_sum id go_goPath (fst (createGo posix_host ''/opt/go'' ''win32'' ''x64'' no_opts False
          [[''opt''] \<mapsto> Dir, [''opt'', ''go''] \<mapsto> Dir])) = Inr ''/opt/go''"
    by simp
  with downloadGo_zip_through_tar [OF f _ m t] show ?thesis
    by (simp add: s1)
qed

end
